theory Spec2Isabelle
  imports Complex_Main
begin

section \<open>Python values, exceptions and dictionaries\<close>

text \<open>
  The handler of \<^verbatim>\<open>findall_handler.py\<close> moves JSON documents between its caller and a
  remote service. A decoded JSON document is a value of \<open>json\<close>; a Python \<open>dict\<close> is an
  association list in insertion order (the keys of a dict are distinct, and \<open>map_of\<close>
  reads the first binding). \<open>JNull\<close> is Python's \<open>None\<close>. Numbers are integers: the handler
  computes with no number it receives, it tests them for truth and passes them on.
\<close>

datatype json =
    JNull
  | JBool bool
  | JInt int
  | JStr string
  | JList "json list"
  | JObj "(string \<times> json) list"

type_synonym envelope = "(string \<times> json) list"

text \<open>
  Exceptions derived from Python's \<open>Exception\<close>, each with the text that \<open>str(e)\<close>
  gives. \<open>RequestException\<close> stands for what the \<open>requests\<close> library raises
  (connection refused, timeout, ...), \<open>JSONDecodeError\<close> for a body that is not JSON,
  \<open>OtherException\<close> for any other class, named by its first argument.
\<close>

datatype exn =
    RuntimeError string
  | AttributeError string
  | TypeError string
  | ValueError string
  | JSONDecodeError string
  | RequestException string
  | OtherException string string

fun str_exn :: "exn \<Rightarrow> string" where
  "str_exn (RuntimeError m) = m"
| "str_exn (AttributeError m) = m"
| "str_exn (TypeError m) = m"
| "str_exn (ValueError m) = m"
| "str_exn (JSONDecodeError m) = m"
| "str_exn (RequestException m) = m"
| "str_exn (OtherException c m) = m"

text \<open>Sequencing of a computation that may raise: the first exception wins.\<close>

definition and_then :: "exn + 'a \<Rightarrow> ('a \<Rightarrow> exn + 'b) \<Rightarrow> exn + 'b" where
  "and_then r f = (case r of Inl e \<Rightarrow> Inl e | Inr v \<Rightarrow> f v)"

fun type_name :: "json \<Rightarrow> string" where
  "type_name JNull = ''NoneType''"
| "type_name (JBool b) = ''bool''"
| "type_name (JInt n) = ''int''"
| "type_name (JStr s) = ''str''"
| "type_name (JList xs) = ''list''"
| "type_name (JObj kvs) = ''dict''"

text \<open>\<open>bool(v)\<close>, as \<open>not v\<close>, \<open>v or d\<close> and \<open>if v:\<close> use it.\<close>

fun truthy :: "json \<Rightarrow> bool" where
  "truthy JNull = False"
| "truthy (JBool b) = b"
| "truthy (JInt n) = (n \<noteq> 0)"
| "truthy (JStr s) = (s \<noteq> [])"
| "truthy (JList xs) = (xs \<noteq> [])"
| "truthy (JObj kvs) = (kvs \<noteq> [])"

text \<open>\<open>d.get(k, default)\<close> on a dict that the handler built itself.\<close>

definition dict_get :: "envelope \<Rightarrow> string \<Rightarrow> json \<Rightarrow> json" where
  "dict_get d k dflt = (case map_of d k of None \<Rightarrow> dflt | Some v \<Rightarrow> v)"

text \<open>
  \<open>v.get(k, default)\<close> on a decoded value: only a dict has the method, every other value
  raises \<open>AttributeError\<close>.
\<close>

definition py_get :: "json \<Rightarrow> string \<Rightarrow> json \<Rightarrow> exn + json" where
  "py_get v k dflt =
     (case v of
        JObj kvs \<Rightarrow> Inr (dict_get kvs k dflt)
      | _ \<Rightarrow> Inl (AttributeError
                 ([CHR 0x27] @ type_name v @ [CHR 0x27] @ '' object has no attribute '' @
                  [CHR 0x27] @ ''get'' @ [CHR 0x27])))"

text \<open>
  \<open>for c in v\<close>: a list gives its elements, a dict its keys, a string its characters;
  nothing else can be iterated.
\<close>

definition py_iter :: "json \<Rightarrow> exn + json list" where
  "py_iter v =
     (case v of
        JList xs \<Rightarrow> Inr xs
      | JObj kvs \<Rightarrow> Inr (map (\<lambda>kv. JStr (fst kv)) kvs)
      | JStr s \<Rightarrow> Inr (map (\<lambda>c. JStr [c]) s)
      | _ \<Rightarrow> Inl (TypeError
                 ([CHR 0x27] @ type_name v @ [CHR 0x27] @ '' object is not iterable'')))"

definition py_len :: "json \<Rightarrow> exn + int" where
  "py_len v =
     (case v of
        JList xs \<Rightarrow> Inr (int (length xs))
      | JObj kvs \<Rightarrow> Inr (int (length kvs))
      | JStr s \<Rightarrow> Inr (int (length s))
      | _ \<Rightarrow> Inl (TypeError
                 (''object of type '' @ [CHR 0x27] @ type_name v @ [CHR 0x27] @ '' has no len()'')))"

text \<open>Decimal rendering of an integer, as an f-string writes it.\<close>

definition digit_char :: "nat \<Rightarrow> char" where
  "digit_char d = ''0123456789'' ! d"

function show_nat :: "nat \<Rightarrow> string" where
  "show_nat n = (if n < 10 then [digit_char n] else show_nat (n div 10) @ [digit_char (n mod 10)])"
  by pat_completeness auto
termination
  by (relation "measure id") auto

declare show_nat.simps [simp del]

definition show_int :: "int \<Rightarrow> string" where
  "show_int i = (if i < 0 then CHR ''-'' # show_nat (nat (- i)) else show_nat (nat i))"


section \<open>The transport, the secret provider and the clock\<close>

text \<open>
  What \<open>requests.get\<close> and \<open>requests.post\<close> are given, and what they give back:
  \<open>json_body\<close> is the value of \<open>response.json()\<close>, the decoded body or the
  exception that decoding raises.
\<close>

datatype http_method = GET | POST

record request =
  req_method :: http_method
  req_url :: string
  req_headers :: "(string \<times> string) list"
  req_json :: "json option"
  req_timeout :: int

record response =
  status_code :: int
  body_text :: string
  json_body :: "exn + json"

text \<open>
  The remote service and the network are a function of the requests made so far, the
  time, and the request: it answers or the call raises, and the call takes \<open>latency\<close>
  seconds. The \<open>world\<close> holds the reading of \<open>time.time()\<close> and the log of requests.
\<close>

record reply =
  outcome :: "exn + response"
  latency :: real

type_synonym remote = "request list \<Rightarrow> real \<Rightarrow> request \<Rightarrow> reply"

record world =
  clock :: real
  sent :: "request list"

definition perform :: "remote \<Rightarrow> request \<Rightarrow> world \<Rightarrow> (exn + response) \<times> world" where
  "perform svc rq w =
     (let r = svc (sent w) (clock w) rq
      in (outcome r, \<lparr>clock = clock w + latency r, sent = sent w @ [rq]\<rparr>))"

text \<open>
  \<open>time.sleep(secs)\<close> raises \<open>ValueError\<close> on a negative length and otherwise lets
  \<open>secs\<close> seconds pass.
\<close>

definition sleep :: "int \<Rightarrow> world \<Rightarrow> (exn + unit) \<times> world" where
  "sleep secs w =
     (if secs < 0 then (Inl (ValueError ''sleep length must be non-negative''), w)
      else (Inr (), w\<lparr>clock := clock w + of_int secs\<rparr>))"

text \<open>
  \<open>try: body except Exception as e: return handler(e)\<close>, where every path of the body
  returns.
\<close>

definition try_except :: "(exn + 'a) \<times> world \<Rightarrow> (exn \<Rightarrow> 'a) \<Rightarrow> 'a \<times> world" where
  "try_except body handler =
     (case body of (Inl e, w) \<Rightarrow> (handler e, w) | (Inr v, w) \<Rightarrow> (v, w))"

section \<open>FindAllHandler\<close>

definition BASE_URL :: string where
  "BASE_URL = ''https://api.parallel.ai''"

definition TIMEOUT :: int where
  "TIMEOUT = 120"

definition BETA_HEADER :: string where
  "BETA_HEADER = ''findall-2025-09-15''"

definition DEFAULT_GENERATOR :: string where
  "DEFAULT_GENERATOR = ''core''"

definition DEFAULT_MATCH_LIMIT :: int where
  "DEFAULT_MATCH_LIMIT = 10"

text \<open>
  The handler holds the injected \<open>_snowflake\<close> module or \<open>None\<close>; of the module only
  \<open>get_generic_secret_string\<close> is used, which returns the secret or raises.
\<close>

record handler =
  snowflake :: "(string \<Rightarrow> exn + string) option"

definition get_api_key :: "handler \<Rightarrow> exn + string" where
  "get_api_key h =
     (case snowflake h of
        None \<Rightarrow> Inl (RuntimeError ''Snowflake module not initialized'')
      | Some get_generic_secret_string \<Rightarrow> get_generic_secret_string ''api_key'')"

definition get_headers :: "handler \<Rightarrow> exn + (string \<times> string) list" where
  "get_headers h =
     and_then (get_api_key h) (\<lambda>key.
       Inr [(''x-api-key'', key),
            (''Content-Type'', ''application/json''),
            (''parallel-beta'', BETA_HEADER)])"

text \<open>
  \<open>requests.get(url, headers=self._get_headers(), timeout=self.TIMEOUT)\<close> and
  \<open>requests.post(url, headers=self._get_headers(), json=payload, timeout=self.TIMEOUT)\<close>:
  the headers are computed while the arguments are evaluated, so an exception of the
  secret lookup is raised before anything is sent.
\<close>

definition requests_get :: "handler \<Rightarrow> remote \<Rightarrow> string \<Rightarrow> world \<Rightarrow> (exn + response) \<times> world" where
  "requests_get h svc u w =
     (case get_headers h of
        Inl e \<Rightarrow> (Inl e, w)
      | Inr hs \<Rightarrow>
          perform svc \<lparr>req_method = GET, req_url = u, req_headers = hs,
                       req_json = None, req_timeout = TIMEOUT\<rparr> w)"

definition requests_post ::
  "handler \<Rightarrow> remote \<Rightarrow> string \<Rightarrow> json option \<Rightarrow> world \<Rightarrow> (exn + response) \<times> world" where
  "requests_post h svc u payload w =
     (case get_headers h of
        Inl e \<Rightarrow> (Inl e, w)
      | Inr hs \<Rightarrow>
          perform svc \<lparr>req_method = POST, req_url = u, req_headers = hs,
                       req_json = payload, req_timeout = TIMEOUT\<rparr> w)"

text \<open>\<open>f'HTTP {response.status_code}: {response.text}'\<close>\<close>

definition http_error :: "response \<Rightarrow> string" where
  "http_error response = ''HTTP '' @ show_int (status_code response) @ '': '' @ body_text response"

subsection \<open>create_findall_run\<close>

text \<open>\<open>generator or self.DEFAULT_GENERATOR\<close> and \<open>match_limit or self.DEFAULT_MATCH_LIMIT\<close>\<close>

definition generator_or_default :: "string option \<Rightarrow> string" where
  "generator_or_default generator =
     (case generator of
        None \<Rightarrow> DEFAULT_GENERATOR
      | Some g \<Rightarrow> if g = [] then DEFAULT_GENERATOR else g)"

definition match_limit_or_default :: "int option \<Rightarrow> int" where
  "match_limit_or_default match_limit =
     (case match_limit of
        None \<Rightarrow> DEFAULT_MATCH_LIMIT
      | Some m \<Rightarrow> if m = 0 then DEFAULT_MATCH_LIMIT else m)"

definition create_payload ::
  "string \<Rightarrow> string \<Rightarrow> json \<Rightarrow> string option \<Rightarrow> int option \<Rightarrow> json \<Rightarrow> json \<Rightarrow> json" where
  "create_payload objective entity_type match_conditions generator match_limit
                  exclude_list metadata =
     JObj ([(''objective'', JStr objective),
            (''entity_type'', JStr entity_type),
            (''match_conditions'', match_conditions),
            (''generator'', JStr (generator_or_default generator)),
            (''match_limit'', JInt (match_limit_or_default match_limit))]
           @ (if truthy exclude_list then [(''exclude_list'', exclude_list)] else [])
           @ (if truthy metadata then [(''metadata'', metadata)] else []))"

definition create_on_200 :: "response \<Rightarrow> exn + envelope" where
  "create_on_200 response =
     and_then (json_body response) (\<lambda>result.
     and_then (py_get result ''findall_id'' JNull) (\<lambda>fid.
     and_then (py_get result ''status'' (JObj [])) (\<lambda>st1.
     and_then (py_get st1 ''status'' JNull) (\<lambda>st.
     and_then (py_get result ''status'' (JObj [])) (\<lambda>st2.
     and_then (py_get st2 ''is_active'' JNull) (\<lambda>act.
     and_then (py_get result ''generator'' JNull) (\<lambda>gen.
     and_then (py_get result ''created_at'' JNull) (\<lambda>created.
       Inr [(''success'', JBool True),
            (''findall_id'', fid),
            (''status'', st),
            (''is_active'', act),
            (''generator'', gen),
            (''created_at'', created)]))))))))"

definition create_findall_run ::
  "handler \<Rightarrow> remote \<Rightarrow> string \<Rightarrow> string \<Rightarrow> json \<Rightarrow> string option \<Rightarrow> int option \<Rightarrow>
   json \<Rightarrow> json \<Rightarrow> world \<Rightarrow> envelope \<times> world" where
  "create_findall_run h svc objective entity_type match_conditions generator match_limit
                      exclude_list metadata w =
     try_except
       (case requests_post h svc (BASE_URL @ ''/v1beta/findall/runs'')
               (Some (create_payload objective entity_type match_conditions generator
                        match_limit exclude_list metadata)) w of
          (Inl e, w') \<Rightarrow> (Inl e, w')
        | (Inr response, w') \<Rightarrow>
            (if status_code response = 200 then (create_on_200 response, w')
             else (Inr [(''success'', JBool False),
                        (''error'', JStr (http_error response)),
                        (''objective'', JStr objective)], w')))
       (\<lambda>e. [(''success'', JBool False),
              (''error'', JStr (str_exn e)),
              (''objective'', JStr objective)])"

subsection \<open>get_findall_status\<close>

definition status_on_200 :: "string \<Rightarrow> response \<Rightarrow> exn + envelope" where
  "status_on_200 findall_id response =
     and_then (json_body response) (\<lambda>result.
     and_then (py_get result ''status'' (JObj [])) (\<lambda>status_obj.
     and_then (py_get status_obj ''status'' JNull) (\<lambda>st.
     and_then (py_get status_obj ''is_active'' JNull) (\<lambda>act.
     and_then (py_get status_obj ''metrics'' (JObj [])) (\<lambda>metrics.
     and_then (py_get result ''modified_at'' JNull) (\<lambda>modified.
       Inr [(''success'', JBool True),
            (''findall_id'', JStr findall_id),
            (''status'', st),
            (''is_active'', act),
            (''metrics'', metrics),
            (''modified_at'', modified)]))))))"

definition get_findall_status :: "handler \<Rightarrow> remote \<Rightarrow> string \<Rightarrow> world \<Rightarrow> envelope \<times> world" where
  "get_findall_status h svc findall_id w =
     try_except
       (case requests_get h svc (BASE_URL @ ''/v1beta/findall/runs/'' @ findall_id) w of
          (Inl e, w') \<Rightarrow> (Inl e, w')
        | (Inr response, w') \<Rightarrow>
            (if status_code response = 200 then (status_on_200 findall_id response, w')
             else (Inr [(''success'', JBool False),
                        (''error'', JStr (http_error response)),
                        (''findall_id'', JStr findall_id)], w')))
       (\<lambda>e. [(''success'', JBool False),
              (''error'', JStr (str_exn e)),
              (''findall_id'', JStr findall_id)])"

subsection \<open>get_findall_results\<close>

text \<open>
  \<open>[c for c in candidates if c.get('match_status') == 'matched']\<close>: the comprehension
  stops at the first element on which \<open>c.get\<close> raises.
\<close>

fun matched_of :: "json list \<Rightarrow> exn + json list" where
  "matched_of [] = Inr []"
| "matched_of (c # cs) =
     and_then (py_get c ''match_status'' JNull) (\<lambda>ms.
     and_then (matched_of cs) (\<lambda>rest.
       Inr (if ms = JStr ''matched'' then c # rest else rest)))"

definition results_on_200 :: "string \<Rightarrow> response \<Rightarrow> exn + envelope" where
  "results_on_200 findall_id response =
     and_then (json_body response) (\<lambda>result.
     and_then (py_get result ''run'' (JObj [])) (\<lambda>run.
     and_then (py_get result ''candidates'' (JList [])) (\<lambda>candidates.
     and_then (py_iter candidates) (\<lambda>cs.
     and_then (matched_of cs) (\<lambda>matched.
     and_then (py_get run ''status'' (JObj [])) (\<lambda>st1.
     and_then (py_get st1 ''status'' JNull) (\<lambda>st.
     and_then (py_get run ''status'' (JObj [])) (\<lambda>st2.
     and_then (py_get st2 ''is_active'' JNull) (\<lambda>act.
     and_then (py_len candidates) (\<lambda>total.
       Inr [(''success'', JBool True),
            (''findall_id'', JStr findall_id),
            (''status'', st),
            (''is_active'', act),
            (''total_candidates'', JInt total),
            (''matched_count'', JInt (int (length matched))),
            (''candidates'', JList matched)]))))))))))"

definition get_findall_results :: "handler \<Rightarrow> remote \<Rightarrow> string \<Rightarrow> world \<Rightarrow> envelope \<times> world" where
  "get_findall_results h svc findall_id w =
     try_except
       (case requests_get h svc
               (BASE_URL @ ''/v1beta/findall/runs/'' @ findall_id @ ''/result'') w of
          (Inl e, w') \<Rightarrow> (Inl e, w')
        | (Inr response, w') \<Rightarrow>
            (if status_code response = 200 then (results_on_200 findall_id response, w')
             else (Inr [(''success'', JBool False),
                        (''error'', JStr (http_error response)),
                        (''findall_id'', JStr findall_id)], w')))
       (\<lambda>e. [(''success'', JBool False),
              (''error'', JStr (str_exn e)),
              (''findall_id'', JStr findall_id)])"


subsection \<open>extend_findall, enrich_findall, cancel_findall\<close>

definition extend_on_200 :: "string \<Rightarrow> response \<Rightarrow> exn + envelope" where
  "extend_on_200 findall_id response =
     and_then (json_body response) (\<lambda>result.
     and_then (py_get result ''match_limit'' JNull) (\<lambda>lim.
     and_then (py_get result ''objective'' JNull) (\<lambda>obj.
     and_then (py_get result ''entity_type'' JNull) (\<lambda>ety.
       Inr [(''success'', JBool True),
            (''findall_id'', JStr findall_id),
            (''new_match_limit'', lim),
            (''objective'', obj),
            (''entity_type'', ety)]))))"

definition extend_findall ::
  "handler \<Rightarrow> remote \<Rightarrow> string \<Rightarrow> int \<Rightarrow> world \<Rightarrow> envelope \<times> world" where
  "extend_findall h svc findall_id additional_match_limit w =
     try_except
       (case requests_post h svc
               (BASE_URL @ ''/v1beta/findall/runs/'' @ findall_id @ ''/extend'')
               (Some (JObj [(''additional_match_limit'', JInt additional_match_limit)])) w of
          (Inl e, w') \<Rightarrow> (Inl e, w')
        | (Inr response, w') \<Rightarrow>
            (if status_code response = 200 then (extend_on_200 findall_id response, w')
             else (Inr [(''success'', JBool False),
                        (''error'', JStr (http_error response)),
                        (''findall_id'', JStr findall_id)], w')))
       (\<lambda>e. [(''success'', JBool False),
              (''error'', JStr (str_exn e)),
              (''findall_id'', JStr findall_id)])"

definition enrich_on_200 :: "string \<Rightarrow> response \<Rightarrow> exn + envelope" where
  "enrich_on_200 findall_id response =
     and_then (json_body response) (\<lambda>result.
     and_then (py_get result ''enrichments'' (JList [])) (\<lambda>enr.
     and_then (py_get result ''objective'' JNull) (\<lambda>obj.
       Inr [(''success'', JBool True),
            (''findall_id'', JStr findall_id),
            (''enrichments'', enr),
            (''objective'', obj)])))"

definition enrich_findall ::
  "handler \<Rightarrow> remote \<Rightarrow> string \<Rightarrow> json \<Rightarrow> string \<Rightarrow> world \<Rightarrow> envelope \<times> world" where
  "enrich_findall h svc findall_id output_schema processor w =
     try_except
       (case requests_post h svc
               (BASE_URL @ ''/v1beta/findall/runs/'' @ findall_id @ ''/enrich'')
               (Some (JObj [(''processor'', JStr processor),
                            (''output_schema'', output_schema)])) w of
          (Inl e, w') \<Rightarrow> (Inl e, w')
        | (Inr response, w') \<Rightarrow>
            (if status_code response = 200 then (enrich_on_200 findall_id response, w')
             else (Inr [(''success'', JBool False),
                        (''error'', JStr (http_error response)),
                        (''findall_id'', JStr findall_id)], w')))
       (\<lambda>e. [(''success'', JBool False),
              (''error'', JStr (str_exn e)),
              (''findall_id'', JStr findall_id)])"

definition cancel_on_200 :: "string \<Rightarrow> response \<Rightarrow> exn + envelope" where
  "cancel_on_200 findall_id response =
     and_then (json_body response) (\<lambda>result.
     and_then (py_get result ''status'' (JObj [])) (\<lambda>status_obj.
     and_then (py_get status_obj ''status'' JNull) (\<lambda>st.
       Inr [(''success'', JBool True),
            (''findall_id'', JStr findall_id),
            (''status'', st),
            (''message'', JStr ''FindAll run cancelled'')])))"

definition cancel_findall :: "handler \<Rightarrow> remote \<Rightarrow> string \<Rightarrow> world \<Rightarrow> envelope \<times> world" where
  "cancel_findall h svc findall_id w =
     try_except
       (case requests_post h svc
               (BASE_URL @ ''/v1beta/findall/runs/'' @ findall_id @ ''/cancel'') None w of
          (Inl e, w') \<Rightarrow> (Inl e, w')
        | (Inr response, w') \<Rightarrow>
            (if status_code response = 200 then (cancel_on_200 findall_id response, w')
             else (Inr [(''success'', JBool False),
                        (''error'', JStr (http_error response)),
                        (''findall_id'', JStr findall_id)], w')))
       (\<lambda>e. [(''success'', JBool False),
              (''error'', JStr (str_exn e)),
              (''findall_id'', JStr findall_id)])"

subsection \<open>wait_for_completion\<close>

definition timeout_envelope :: "string \<Rightarrow> int \<Rightarrow> envelope" where
  "timeout_envelope findall_id max_wait =
     [(''success'', JBool False),
      (''error'', JStr (''Timeout after '' @ show_int max_wait @ '' seconds'')),
      (''findall_id'', JStr findall_id)]"

text \<open>
  The \<open>while\<close> loop, entered with \<open>start_time\<close> already read. It has no \<open>try\<close>: an
  exception of \<open>time.sleep\<close> leaves the method. The loop need not end (a zero
  \<open>poll_interval\<close> against a service that answers at once and stays active), so its
  result is an option and \<open>None\<close> is a run that never returns.
\<close>

partial_function (option) wait_loop ::
  "handler \<Rightarrow> remote \<Rightarrow> string \<Rightarrow> int \<Rightarrow> int \<Rightarrow> real \<Rightarrow> world \<Rightarrow>
   ((exn + envelope) \<times> world) option" where
  "wait_loop h svc findall_id poll_interval max_wait start_time w =
     (if clock w - start_time < of_int max_wait then
        (case get_findall_status h svc findall_id w of
           (status, w1) \<Rightarrow>
             if \<not> truthy (dict_get status ''success'' JNull) then Some (Inr status, w1)
             else if \<not> truthy (dict_get status ''is_active'' JNull) then
               (case get_findall_results h svc findall_id w1 of
                  (results, w2) \<Rightarrow> Some (Inr results, w2))
             else
               (case sleep poll_interval w1 of
                  (Inl e, w2) \<Rightarrow> Some (Inl e, w2)
                | (Inr u, w2) \<Rightarrow>
                    wait_loop h svc findall_id poll_interval max_wait start_time w2))
      else Some (Inr (timeout_envelope findall_id max_wait), w))"

definition wait_for_completion ::
  "handler \<Rightarrow> remote \<Rightarrow> string \<Rightarrow> int \<Rightarrow> int \<Rightarrow> world \<Rightarrow> ((exn + envelope) \<times> world) option" where
  "wait_for_completion h svc findall_id poll_interval max_wait w =
     wait_loop h svc findall_id poll_interval max_wait (clock w) w"

subsection \<open>The UDF entry point of enrich\<close>

text \<open>
  \<open>json.loads\<close> and \<open>json.dumps\<close> belong to the Python library and are parameters.
  The schema argument is decoded when it is a string and passed on as it is otherwise;
  the decoding stands outside every \<open>try\<close>.
\<close>

definition enrich_findall_udf ::
  "(string \<Rightarrow> exn + json) \<Rightarrow> (envelope \<Rightarrow> string) \<Rightarrow> string \<Rightarrow> json \<Rightarrow> string \<Rightarrow>
   (string \<Rightarrow> exn + string) option \<Rightarrow> remote \<Rightarrow> world \<Rightarrow> (exn + string) \<times> world" where
  "enrich_findall_udf loads dumps findall_id output_schema_json processor snowflake_module svc w =
     (let handler = \<lparr>snowflake = snowflake_module\<rparr> in
      case (case output_schema_json of JStr s \<Rightarrow> loads s | v \<Rightarrow> Inr v) of
        Inl e \<Rightarrow> (Inl e, w)
      | Inr output_schema \<Rightarrow>
          (case enrich_findall handler svc findall_id output_schema processor w of
             (result, w') \<Rightarrow> (Inr (dumps result), w')))"


section \<open>Vocabulary of the theorems\<close>

text \<open>
  The six operations that make one HTTP call each, as one type, so that a statement can
  range over all of them: \<open>run\<close> dispatches to the method, \<open>transport_call\<close> is the
  \<open>requests\<close> call the method makes, \<open>on_200\<close> what it builds from a 200 response and
  \<open>context_field\<close> the field its failure envelopes carry besides \<open>success\<close> and
  \<open>error\<close>.
\<close>

datatype operation =
    CreateRun string string json "string option" "int option" json json
  | GetStatus string
  | GetResults string
  | Extend string int
  | Enrich string json string
  | Cancel string

fun run :: "handler \<Rightarrow> remote \<Rightarrow> operation \<Rightarrow> world \<Rightarrow> envelope \<times> world" where
  "run h svc (CreateRun objective entity_type match_conditions generator match_limit
                exclude_list metadata) w =
     create_findall_run h svc objective entity_type match_conditions generator match_limit
       exclude_list metadata w"
| "run h svc (GetStatus findall_id) w = get_findall_status h svc findall_id w"
| "run h svc (GetResults findall_id) w = get_findall_results h svc findall_id w"
| "run h svc (Extend findall_id additional_match_limit) w =
     extend_findall h svc findall_id additional_match_limit w"
| "run h svc (Enrich findall_id output_schema processor) w =
     enrich_findall h svc findall_id output_schema processor w"
| "run h svc (Cancel findall_id) w = cancel_findall h svc findall_id w"

definition status_url :: "string \<Rightarrow> string" where
  "status_url findall_id = BASE_URL @ ''/v1beta/findall/runs/'' @ findall_id"

definition result_url :: "string \<Rightarrow> string" where
  "result_url findall_id = BASE_URL @ ''/v1beta/findall/runs/'' @ findall_id @ ''/result''"

fun transport_call ::
  "handler \<Rightarrow> remote \<Rightarrow> operation \<Rightarrow> world \<Rightarrow> (exn + response) \<times> world" where
  "transport_call h svc (CreateRun objective entity_type match_conditions generator match_limit
                           exclude_list metadata) w =
     requests_post h svc (BASE_URL @ ''/v1beta/findall/runs'')
       (Some (create_payload objective entity_type match_conditions generator match_limit
                exclude_list metadata)) w"
| "transport_call h svc (GetStatus findall_id) w = requests_get h svc (status_url findall_id) w"
| "transport_call h svc (GetResults findall_id) w = requests_get h svc (result_url findall_id) w"
| "transport_call h svc (Extend findall_id additional_match_limit) w =
     requests_post h svc (BASE_URL @ ''/v1beta/findall/runs/'' @ findall_id @ ''/extend'')
       (Some (JObj [(''additional_match_limit'', JInt additional_match_limit)])) w"
| "transport_call h svc (Enrich findall_id output_schema processor) w =
     requests_post h svc (BASE_URL @ ''/v1beta/findall/runs/'' @ findall_id @ ''/enrich'')
       (Some (JObj [(''processor'', JStr processor), (''output_schema'', output_schema)])) w"
| "transport_call h svc (Cancel findall_id) w =
     requests_post h svc (BASE_URL @ ''/v1beta/findall/runs/'' @ findall_id @ ''/cancel'') None w"

fun on_200 :: "operation \<Rightarrow> response \<Rightarrow> exn + envelope" where
  "on_200 (CreateRun objective entity_type match_conditions generator match_limit
             exclude_list metadata) = create_on_200"
| "on_200 (GetStatus findall_id) = status_on_200 findall_id"
| "on_200 (GetResults findall_id) = results_on_200 findall_id"
| "on_200 (Extend findall_id additional_match_limit) = extend_on_200 findall_id"
| "on_200 (Enrich findall_id output_schema processor) = enrich_on_200 findall_id"
| "on_200 (Cancel findall_id) = cancel_on_200 findall_id"

fun context_field :: "operation \<Rightarrow> string \<times> json" where
  "context_field (CreateRun objective entity_type match_conditions generator match_limit
                    exclude_list metadata) = (''objective'', JStr objective)"
| "context_field (GetStatus findall_id) = (''findall_id'', JStr findall_id)"
| "context_field (GetResults findall_id) = (''findall_id'', JStr findall_id)"
| "context_field (Extend findall_id additional_match_limit) = (''findall_id'', JStr findall_id)"
| "context_field (Enrich findall_id output_schema processor) = (''findall_id'', JStr findall_id)"
| "context_field (Cancel findall_id) = (''findall_id'', JStr findall_id)"

definition failure_envelope :: "string \<Rightarrow> string \<times> json \<Rightarrow> envelope" where
  "failure_envelope msg ctx = [(''success'', JBool False), (''error'', JStr msg), ctx]"

text \<open>
  The envelope that an operation makes of the outcome of its call: the text of the
  exception when the call raised, the status and the raw body when the status is not 200,
  and otherwise what it reads from the body, or the text of the exception that reading
  raised.
\<close>

definition envelope_of_outcome :: "operation \<Rightarrow> exn + response \<Rightarrow> envelope" where
  "envelope_of_outcome op r =
     (case r of
        Inl e \<Rightarrow> failure_envelope (str_exn e) (context_field op)
      | Inr response \<Rightarrow>
          if status_code response = 200 then
            (case on_200 op response of
               Inl e \<Rightarrow> failure_envelope (str_exn e) (context_field op)
             | Inr env \<Rightarrow> env)
          else failure_envelope (http_error response) (context_field op))"


definition post_request :: "(string \<times> string) list \<Rightarrow> string \<Rightarrow> json option \<Rightarrow> request" where
  "post_request hs u payload =
     \<lparr>req_method = POST, req_url = u, req_headers = hs, req_json = payload,
      req_timeout = TIMEOUT\<rparr>"

text \<open>The test of the list comprehension of \<open>get_findall_results\<close>.\<close>

definition is_matched :: "json \<Rightarrow> bool" where
  "is_matched c = (py_get c ''match_status'' JNull = Inr (JStr ''matched''))"

definition get_request :: "(string \<times> string) list \<Rightarrow> string \<Rightarrow> request" where
  "get_request hs u =
     \<lparr>req_method = GET, req_url = u, req_headers = hs, req_json = None, req_timeout = TIMEOUT\<rparr>"

text \<open>
  The trace of the polling loop. \<open>loop_world \<dots> k\<close> is the world in which the loop
  condition is tested for the \<open>k\<close>-th time after \<open>k\<close> rounds of poll and sleep;
  \<open>goes_round\<close> says that a round started in \<open>w\<close> reaches the sleep: the time is
  within \<open>max_wait\<close>, the poll succeeded and reported an active run.
\<close>

fun loop_world :: "handler \<Rightarrow> remote \<Rightarrow> string \<Rightarrow> int \<Rightarrow> world \<Rightarrow> nat \<Rightarrow> world" where
  "loop_world h svc fid p w 0 = w"
| "loop_world h svc fid p w (Suc k) =
     snd (sleep p (snd (get_findall_status h svc fid (loop_world h svc fid p w k))))"

definition goes_round :: "handler \<Rightarrow> remote \<Rightarrow> string \<Rightarrow> int \<Rightarrow> real \<Rightarrow> world \<Rightarrow> bool" where
  "goes_round h svc fid max_wait start w =
     (clock w - start < of_int max_wait \<and>
      truthy (dict_get (fst (get_findall_status h svc fid w)) ''success'' JNull) \<and>
      truthy (dict_get (fst (get_findall_status h svc fid w)) ''is_active'' JNull))"


text \<open>
  The requests of a wait: some polls of the status and then at most one read of the
  result, all with the same headers; nothing when the secret lookup raises.
\<close>

definition reads_only :: "handler \<Rightarrow> string \<Rightarrow> request list \<Rightarrow> request list \<Rightarrow> bool" where
  "reads_only h fid before after =
     (case get_headers h of
        Inl e \<Rightarrow> after = before
      | Inr hs \<Rightarrow>
          (\<exists>n fin. after = before @ replicate n (get_request hs (status_url fid)) @ fin \<and>
                   (fin = [] \<or> fin = [get_request hs (result_url fid)])))"

section \<open>Worlds for the examples\<close>

definition keyed_handler :: handler where
  "keyed_handler = \<lparr>snowflake = Some (\<lambda>name. Inr ''k-123'')\<rparr>"

definition bare_handler :: handler where
  "bare_handler = \<lparr>snowflake = None\<rparr>"

definition start_world :: world where
  "start_world = \<lparr>clock = 0, sent = []\<rparr>"

definition http_reply :: "real \<Rightarrow> int \<Rightarrow> string \<Rightarrow> exn + json \<Rightarrow> reply" where
  "http_reply secs code txt body =
     \<lparr>outcome = Inr \<lparr>status_code = code, body_text = txt, json_body = body\<rparr>, latency = secs\<rparr>"

definition failed_call :: "real \<Rightarrow> exn \<Rightarrow> reply" where
  "failed_call secs e = \<lparr>outcome = Inl e, latency = secs\<rparr>"

text \<open>A service that answers the \<open>n\<close>-th request with the \<open>n\<close>-th reply of a script.\<close>

definition scripted :: "reply list \<Rightarrow> reply \<Rightarrow> remote" where
  "scripted rs dflt = (\<lambda>hist t rq. if length hist < length rs then rs ! length hist else dflt)"

definition status_body :: "string \<Rightarrow> bool \<Rightarrow> json" where
  "status_body st act =
     JObj [(''findall_id'', JStr ''fa_1''),
           (''status'', JObj [(''status'', JStr st), (''is_active'', JBool act)])]"

definition result_body :: json where
  "result_body =
     JObj [(''run'', JObj [(''status'',
                            JObj [(''status'', JStr ''completed''), (''is_active'', JBool False)])]),
           (''candidates'',
              JList [JObj [(''name'', JStr ''A''), (''match_status'', JStr ''matched'')],
                     JObj [(''name'', JStr ''B''), (''match_status'', JStr ''unmatched'')],
                     JObj [(''name'', JStr ''C''), (''match_status'', JStr ''matched'')]])]"

text \<open>
  The text of a document, as \<open>json.dumps\<close> writes it when no string in it needs an
  escape; the examples use it for the raw text of a response.
\<close>

definition dq :: string where
  "dq = [CHR 0x22]"

fun render :: "json \<Rightarrow> string"
  and render_items :: "json list \<Rightarrow> string"
  and render_fields :: "(string \<times> json) list \<Rightarrow> string" where
  "render JNull = ''null''"
| "render (JBool b) = (if b then ''true'' else ''false'')"
| "render (JInt n) = show_int n"
| "render (JStr s) = dq @ s @ dq"
| "render (JList xs) = ''['' @ render_items xs @ '']''"
| "render (JObj kvs) = ''{'' @ render_fields kvs @ ''}''"
| "render_items [] = []"
| "render_items [x] = render x"
| "render_items (x # y # ys) = render x @ '', '' @ render_items (y # ys)"
| "render_fields [] = []"
| "render_fields [kv] = dq @ fst kv @ dq @ '': '' @ render (snd kv)"
| "render_fields (kv # kv' # kvs) =
     dq @ fst kv @ dq @ '': '' @ render (snd kv) @ '', '' @ render_fields (kv' # kvs)"

definition json_reply :: "real \<Rightarrow> int \<Rightarrow> json \<Rightarrow> reply" where
  "json_reply secs code body = http_reply secs code (render body) (Inr body)"

text \<open>
  A run that is active at the first poll and complete at the second, and then gives its
  result; a run that stays active; a network that refuses every connection.
\<close>

definition demo_service :: remote where
  "demo_service =
     scripted [json_reply 1 200 (status_body ''running'' True),
               json_reply 1 200 (status_body ''completed'' False),
               json_reply 2 200 result_body]
              (failed_call 0 (RequestException ''Connection refused''))"

definition busy_service :: remote where
  "busy_service = scripted [] (json_reply 2 200 (status_body ''running'' True))"

definition refusing_service :: remote where
  "refusing_service = scripted [] (failed_call 0 (RequestException ''Connection refused''))"

text \<open>A run that is active at the first poll; every later call meets a refused connection.\<close>

definition flaky_service :: remote where
  "flaky_service =
     scripted [json_reply 1 200 (status_body ''running'' True)]
              (failed_call 3 (RequestException ''Connection refused''))"

text \<open>A service that rejects every request with status 422 and a body of plain text.\<close>

definition rejecting_service :: remote where
  "rejecting_service =
     scripted [] (http_reply 1 422 ''output_schema must be an object''
                    (Inl (JSONDecodeError ''Expecting value: line 1 column 1 (char 0)'')))"

text \<open>
  An instance of \<open>json.loads\<close> for the examples. It is meant at two texts only and
  agrees with \<open>json.loads\<close> there: \<open>{}\<close> decodes to the empty dict, and
  \<open>not json\<close> raises \<open>JSONDecodeError\<close> with the message below. \<open>demo_dumps\<close>
  is the instance of \<open>json.dumps\<close>.
\<close>

definition demo_loads :: "string \<Rightarrow> exn + json" where
  "demo_loads s =
     (if s = ''{}'' then Inr (JObj [])
      else Inl (JSONDecodeError ''Expecting value: line 1 column 1 (char 0)''))"

definition demo_dumps :: "envelope \<Rightarrow> string" where
  "demo_dumps env = render (JObj env)"

section \<open>Basic facts\<close>

lemma and_then_Inr [simp]: "and_then (Inr v) f = f v"
  by (simp add: and_then_def)

lemma and_then_Inl [simp]: "and_then (Inl e) f = Inl e"
  by (simp add: and_then_def)

lemma py_get_JObj [simp]: "py_get (JObj kvs) k d = Inr (dict_get kvs k d)"
  by (simp add: py_get_def)

lemma requests_get_cases:
  "(\<exists>e. get_headers h = Inl e \<and> requests_get h svc u w = (Inl e, w)) \<or>
   (\<exists>hs. get_headers h = Inr hs \<and>
         requests_get h svc u w =
           (outcome (svc (sent w) (clock w) (get_request hs u)),
            \<lparr>clock = clock w + latency (svc (sent w) (clock w) (get_request hs u)),
             sent = sent w @ [get_request hs u]\<rparr>))"
  by (cases "get_headers h") (simp_all add: requests_get_def perform_def get_request_def Let_def)

lemma status_on_200_success:
  "status_on_200 fid resp = Inr env \<Longrightarrow> dict_get env ''success'' JNull = JBool True"
  by (auto simp: status_on_200_def and_then_def dict_get_def split: sum.splits)

lemma get_findall_status_world:
  "snd (get_findall_status h svc fid w) = snd (requests_get h svc (status_url fid) w)"
  by (auto simp: get_findall_status_def try_except_def status_url_def split: prod.splits sum.splits)

lemma get_findall_results_world:
  "snd (get_findall_results h svc fid w) = snd (requests_get h svc (result_url fid) w)"
  by (auto simp: get_findall_results_def try_except_def result_url_def split: prod.splits sum.splits)

lemma get_findall_status_secret_fails:
  "get_headers h = Inl e \<Longrightarrow>
   get_findall_status h svc fid w =
     ([(''success'', JBool False), (''error'', JStr (str_exn e)), (''findall_id'', JStr fid)], w)"
  by (simp add: get_findall_status_def try_except_def requests_get_def)

lemma status_ok_headers:
  assumes "truthy (dict_get (fst (get_findall_status h svc fid w)) ''success'' JNull)"
  shows "\<exists>hs. get_headers h = Inr hs"
proof (cases "get_headers h")
  case (Inl e)
  with assms show ?thesis
    by (simp add: get_findall_status_secret_fails dict_get_def)
next
  case (Inr hs)
  then show ?thesis by simp
qed

lemma status_sent:
  "get_headers h = Inr hs \<Longrightarrow>
   sent (snd (get_findall_status h svc fid w)) = sent w @ [get_request hs (status_url fid)]"
  using requests_get_cases[of h svc "status_url fid" w]
  by (auto simp: get_findall_status_world)

lemma results_sent:
  "get_headers h = Inr hs \<Longrightarrow>
   sent (snd (get_findall_results h svc fid w)) = sent w @ [get_request hs (result_url fid)]"
  using requests_get_cases[of h svc "result_url fid" w]
  by (auto simp: get_findall_results_world)

lemma status_sent_fail:
  "get_headers h = Inl e \<Longrightarrow> sent (snd (get_findall_status h svc fid w)) = sent w"
  by (simp add: get_findall_status_secret_fails)

lemma reads_onlyI:
  "get_headers h = Inr hs \<Longrightarrow>
   after = before @ replicate n (get_request hs (status_url fid)) @ fin \<Longrightarrow>
   fin = [] \<or> fin = [get_request hs (result_url fid)] \<Longrightarrow>
   reads_only h fid before after"
  unfolding reads_only_def by (simp only: sum.case) blast

lemma wait_loop_reads_only:
  assumes "wait_loop h svc fid p m start w = Some rw"
  shows "reads_only h fid (sent w) (sent (snd rw))"
proof (rule wait_loop.raw_induct
         [where P = "\<lambda>h svc fid p m start w rw. reads_only h fid (sent w) (sent (snd rw))",
          OF _ assms], goal_cases)
  case (1 wait_loop h svc fid p m start w rw)
  show ?case
  proof (cases "get_headers h")
    case (Inl e)
    with 1(2) show ?thesis
      by (auto simp: reads_only_def get_findall_status_secret_fails dict_get_def split: if_splits)
  next
    case (Inr hs)
    let ?sq = "get_request hs (status_url fid)"
    obtain st w1 where st: "get_findall_status h svc fid w = (st, w1)"
      by (cases "get_findall_status h svc fid w")
    have w1: "sent w1 = sent w @ [?sq]"
      using status_sent[OF Inr, of svc fid w] st by simp
    show ?thesis
    proof (cases "clock w - start < real_of_int m")
      case False
      with 1(2) have "snd rw = w" by auto
      then have "sent (snd rw) = sent w @ replicate 0 ?sq @ []"
        by simp
      then show ?thesis by (rule reads_onlyI[OF Inr]) simp
    next
      case True
      note win = this
      show ?thesis
      proof (cases "truthy (dict_get st ''success'' JNull)")
        case False
        with 1(2) win st have "snd rw = w1" by auto
        then have "sent (snd rw) = sent w @ replicate 1 ?sq @ []"
          using w1 by simp
        then show ?thesis by (rule reads_onlyI[OF Inr]) simp
      next
        case True
        note ok = this
        show ?thesis
        proof (cases "truthy (dict_get st ''is_active'' JNull)")
          case False
          with 1(2) win st ok have "snd rw = snd (get_findall_results h svc fid w1)"
            by (auto split: prod.splits)
          then have "sent (snd rw) = sent w @ replicate 1 ?sq @ [get_request hs (result_url fid)]"
            using results_sent[OF Inr, of svc fid w1] w1 by simp
          then show ?thesis by (rule reads_onlyI[OF Inr]) simp
        next
          case True
          show ?thesis
          proof (cases "p < 0")
            case True
            with 1(2) win st ok \<open>truthy (dict_get st ''is_active'' JNull)\<close>
            have "snd rw = w1" by (auto simp: sleep_def)
            then have "sent (snd rw) = sent w @ replicate 1 ?sq @ []"
              using w1 by simp
            then show ?thesis by (rule reads_onlyI[OF Inr]) simp
          next
            case False
            with 1(2) win st ok \<open>truthy (dict_get st ''is_active'' JNull)\<close>
            have rec: "wait_loop h svc fid p m start (w1\<lparr>clock := clock w1 + of_int p\<rparr>) = Some rw"
              by (auto simp: sleep_def)
            from 1(1)[OF rec] Inr obtain n fin where
              "sent (snd rw) = sent w1 @ replicate n ?sq @ fin"
              and fin: "fin = [] \<or> fin = [get_request hs (result_url fid)]"
              by (auto simp: reads_only_def)
            then have "sent (snd rw) = sent w @ replicate (Suc n) ?sq @ fin"
              using w1 by simp
            then show ?thesis using fin by (rule reads_onlyI[OF Inr])
          qed
        qed
      qed
    qed
  qed
qed





lemma wait_loop_round:
  assumes "goes_round h svc fid m start w" and "0 \<le> p"
  shows "wait_loop h svc fid p m start w =
         wait_loop h svc fid p m start (snd (sleep p (snd (get_findall_status h svc fid w))))"
  using assms
  by (subst wait_loop.simps)
     (auto simp: goes_round_def sleep_def split: prod.splits)



section \<open>The result set\<close>

lemma matched_of_objects:
  "\<forall>c\<in>set cs. \<exists>kvs. c = JObj kvs \<Longrightarrow> matched_of cs = Inr (filter is_matched cs)"
  by (induction cs) (auto simp: is_matched_def)

lemma results_on_200_shape:
  assumes "json_body response = Inr (JObj result)"
    and "dict_get result ''candidates'' (JList []) = JList cs"
    and "\<forall>c\<in>set cs. \<exists>kvs. c = JObj kvs"
    and "dict_get result ''run'' (JObj []) = JObj run_obj"
    and "dict_get run_obj ''status'' (JObj []) = JObj st"
  shows "results_on_200 findall_id response =
      Inr [(''success'', JBool True),
           (''findall_id'', JStr findall_id),
           (''status'', dict_get st ''status'' JNull),
           (''is_active'', dict_get st ''is_active'' JNull),
           (''total_candidates'', JInt (int (length cs))),
           (''matched_count'', JInt (int (length (filter is_matched cs)))),
           (''candidates'', JList (filter is_matched cs))]"
  using assms by (simp add: results_on_200_def py_iter_def py_len_def matched_of_objects)

lemmas eval_defs =
  get_findall_status_def get_findall_results_def try_except_def requests_get_def requests_post_def
  get_headers_def get_api_key_def keyed_handler_def bare_handler_def start_world_def
  and_then_def perform_def scripted_def http_reply_def json_reply_def failed_call_def Let_def
  status_on_200_def results_on_200_def status_body_def result_body_def
  py_get_def py_iter_def py_len_def dict_get_def sleep_def
  BASE_URL_def TIMEOUT_def BETA_HEADER_def status_url_def result_url_def get_request_def
  demo_service_def busy_service_def refusing_service_def flaky_service_def
  rejecting_service_def
  http_error_def show_int_def show_nat.simps digit_char_def dq_def failure_envelope_def

lemma matched_of_filter:
  "matched_of cs = Inr matched \<Longrightarrow> matched = filter is_matched cs"
proof (induction cs arbitrary: matched)
  case Nil
  then show ?case by simp
next
  case (Cons c cs)
  from Cons.prems obtain ms rest where
    ms: "py_get c ''match_status'' JNull = Inr ms"
    and rest: "matched_of cs = Inr rest"
    and m: "matched = (if ms = JStr ''matched'' then c # rest else rest)"
    by (auto simp: and_then_def split: sum.splits)
  from Cons.IH[OF rest] have r: "rest = filter is_matched cs" .
  have "is_matched c = (ms = JStr ''matched'')"
    using ms by (simp add: is_matched_def)
  with m r show ?case by simp
qed

lemma py_len_iter:
  "py_iter v = Inr cs \<Longrightarrow> py_len v = Inr (int (length cs))"
  by (cases v) (auto simp: py_iter_def py_len_def)

lemma results_on_200_fields:
  assumes "results_on_200 findall_id response = Inr env"
  shows "\<exists>res cands items.
           json_body response = Inr res \<and>
           py_get res ''candidates'' (JList []) = Inr cands \<and>
           py_iter cands = Inr items \<and>
           map_of env ''candidates'' = Some (JList (filter is_matched items)) \<and>
           map_of env ''matched_count'' = Some (JInt (int (length (filter is_matched items)))) \<and>
           map_of env ''total_candidates'' = Some (JInt (int (length items)))"
proof -
  from assms obtain res where res: "json_body response = Inr res"
    by (cases "json_body response") (simp_all add: results_on_200_def)
  from assms res obtain run_v where run_v: "py_get res ''run'' (JObj []) = Inr run_v"
    by (cases "py_get res ''run'' (JObj [])") (simp_all add: results_on_200_def)
  from assms res run_v obtain cands where
    cands: "py_get res ''candidates'' (JList []) = Inr cands"
    by (cases "py_get res ''candidates'' (JList [])") (simp_all add: results_on_200_def)
  from assms res run_v cands obtain items where items: "py_iter cands = Inr items"
    by (cases "py_iter cands") (simp_all add: results_on_200_def)
  from assms res run_v cands items obtain matched where matched: "matched_of items = Inr matched"
    by (cases "matched_of items") (simp_all add: results_on_200_def)
  have m: "matched = filter is_matched items"
    using matched by (rule matched_of_filter)
  have len: "py_len cands = Inr (int (length items))"
    using items by (rule py_len_iter)
  from assms res run_v cands items matched len
  have "map_of env ''candidates'' = Some (JList matched) \<and>
        map_of env ''matched_count'' = Some (JInt (int (length matched))) \<and>
        map_of env ''total_candidates'' = Some (JInt (int (length items)))"
    by (auto simp: results_on_200_def and_then_def split: sum.splits)
  with res cands items m show ?thesis by blast
qed

text \<open>
  C2, as the code has it, for a result request that is answered with status 200. When
  the body decodes to an object in which \<open>candidates\<close> (an empty list when absent) is
  a list of objects, \<open>run\<close> (an empty object when absent) is an object and the
  \<open>status\<close> of the run (likewise) is an object, \<open>get_findall_results\<close> returns a
  success envelope: \<open>candidates\<close> is the sublist, in order, of the candidates whose
  \<open>match_status\<close> is the string \<open>matched\<close>, \<open>matched_count\<close> is its length and
  \<open>total_candidates\<close> the length of the whole list. And whatever the body, when the
  envelope is a success, its \<open>candidates\<close> is that sublist of the items that
  iterating the \<open>candidates\<close> of the body gives, \<open>matched_count\<close> its length and
  \<open>total_candidates\<close> the number of items, so that
  \<open>matched_count \<le> total_candidates\<close>.
\<close>

theorem get_findall_results_filters_matched:
  assumes "requests_get h svc (BASE_URL @ ''/v1beta/findall/runs/'' @ findall_id @ ''/result'') w
             = (Inr response, w')"
    and "status_code response = 200"
  shows "(json_body response = Inr (JObj result) \<and>
          dict_get result ''candidates'' (JList []) = JList cs \<and>
          (\<forall>c\<in>set cs. \<exists>kvs. c = JObj kvs) \<and>
          dict_get result ''run'' (JObj []) = JObj run_obj \<and>
          dict_get run_obj ''status'' (JObj []) = JObj st \<longrightarrow>
            get_findall_results h svc findall_id w =
              ([(''success'', JBool True),
                (''findall_id'', JStr findall_id),
                (''status'', dict_get st ''status'' JNull),
                (''is_active'', dict_get st ''is_active'' JNull),
                (''total_candidates'', JInt (int (length cs))),
                (''matched_count'', JInt (int (length (filter is_matched cs)))),
                (''candidates'', JList (filter is_matched cs))], w') \<and>
            length (filter is_matched cs) \<le> length cs) \<and>
         (map_of (fst (get_findall_results h svc findall_id w)) ''success'' = Some (JBool True) \<longrightarrow>
            (\<exists>res cands items.
               json_body response = Inr res \<and>
               py_get res ''candidates'' (JList []) = Inr cands \<and>
               py_iter cands = Inr items \<and>
               map_of (fst (get_findall_results h svc findall_id w)) ''candidates'' =
                 Some (JList (filter is_matched items)) \<and>
               map_of (fst (get_findall_results h svc findall_id w)) ''matched_count'' =
                 Some (JInt (int (length (filter is_matched items)))) \<and>
               map_of (fst (get_findall_results h svc findall_id w)) ''total_candidates'' =
                 Some (JInt (int (length items))) \<and>
               length (filter is_matched items) \<le> length items))"
proof -
  have A: "json_body response = Inr (JObj result) \<and>
          dict_get result ''candidates'' (JList []) = JList cs \<and>
          (\<forall>c\<in>set cs. \<exists>kvs. c = JObj kvs) \<and>
          dict_get result ''run'' (JObj []) = JObj run_obj \<and>
          dict_get run_obj ''status'' (JObj []) = JObj st \<longrightarrow>
            get_findall_results h svc findall_id w =
              ([(''success'', JBool True),
                (''findall_id'', JStr findall_id),
                (''status'', dict_get st ''status'' JNull),
                (''is_active'', dict_get st ''is_active'' JNull),
                (''total_candidates'', JInt (int (length cs))),
                (''matched_count'', JInt (int (length (filter is_matched cs)))),
                (''candidates'', JList (filter is_matched cs))], w') \<and>
            length (filter is_matched cs) \<le> length cs"
  proof
    assume shape: "json_body response = Inr (JObj result) \<and>
          dict_get result ''candidates'' (JList []) = JList cs \<and>
          (\<forall>c\<in>set cs. \<exists>kvs. c = JObj kvs) \<and>
          dict_get result ''run'' (JObj []) = JObj run_obj \<and>
          dict_get run_obj ''status'' (JObj []) = JObj st"
    then have "results_on_200 findall_id response =
      Inr [(''success'', JBool True),
           (''findall_id'', JStr findall_id),
           (''status'', dict_get st ''status'' JNull),
           (''is_active'', dict_get st ''is_active'' JNull),
           (''total_candidates'', JInt (int (length cs))),
           (''matched_count'', JInt (int (length (filter is_matched cs)))),
           (''candidates'', JList (filter is_matched cs))]"
      using results_on_200_shape[of response result cs run_obj st findall_id] by blast
    with assms show "get_findall_results h svc findall_id w =
              ([(''success'', JBool True),
                (''findall_id'', JStr findall_id),
                (''status'', dict_get st ''status'' JNull),
                (''is_active'', dict_get st ''is_active'' JNull),
                (''total_candidates'', JInt (int (length cs))),
                (''matched_count'', JInt (int (length (filter is_matched cs)))),
                (''candidates'', JList (filter is_matched cs))], w') \<and>
            length (filter is_matched cs) \<le> length cs"
      by (simp add: get_findall_results_def try_except_def)
  qed
  have B: "map_of (fst (get_findall_results h svc findall_id w)) ''success'' = Some (JBool True) \<longrightarrow>
            (\<exists>res cands items.
               json_body response = Inr res \<and>
               py_get res ''candidates'' (JList []) = Inr cands \<and>
               py_iter cands = Inr items \<and>
               map_of (fst (get_findall_results h svc findall_id w)) ''candidates'' =
                 Some (JList (filter is_matched items)) \<and>
               map_of (fst (get_findall_results h svc findall_id w)) ''matched_count'' =
                 Some (JInt (int (length (filter is_matched items)))) \<and>
               map_of (fst (get_findall_results h svc findall_id w)) ''total_candidates'' =
                 Some (JInt (int (length items))) \<and>
               length (filter is_matched items) \<le> length items)"
  proof
    assume ok: "map_of (fst (get_findall_results h svc findall_id w)) ''success'' = Some (JBool True)"
    show "\<exists>res cands items.
               json_body response = Inr res \<and>
               py_get res ''candidates'' (JList []) = Inr cands \<and>
               py_iter cands = Inr items \<and>
               map_of (fst (get_findall_results h svc findall_id w)) ''candidates'' =
                 Some (JList (filter is_matched items)) \<and>
               map_of (fst (get_findall_results h svc findall_id w)) ''matched_count'' =
                 Some (JInt (int (length (filter is_matched items)))) \<and>
               map_of (fst (get_findall_results h svc findall_id w)) ''total_candidates'' =
                 Some (JInt (int (length items))) \<and>
               length (filter is_matched items) \<le> length items"
    proof (cases "results_on_200 findall_id response")
      case (Inl e)
      with assms ok show ?thesis
        by (simp add: get_findall_results_def try_except_def)
    next
      case (Inr env)
      with assms have "fst (get_findall_results h svc findall_id w) = env"
        by (simp add: get_findall_results_def try_except_def)
      with results_on_200_fields[OF Inr] show ?thesis by auto
    qed
  qed
  from A B show ?thesis by blast
qed

theorem get_findall_results_filters_matched_witness:
  "get_findall_results keyed_handler (scripted [] (json_reply 2 200 result_body)) ''fa_1'' start_world =
     ([(''success'', JBool True),
       (''findall_id'', JStr ''fa_1''),
       (''status'', JStr ''completed''),
       (''is_active'', JBool False),
       (''total_candidates'', JInt 3),
       (''matched_count'', JInt 2),
       (''candidates'',
          JList [JObj [(''name'', JStr ''A''), (''match_status'', JStr ''matched'')],
                 JObj [(''name'', JStr ''C''), (''match_status'', JStr ''matched'')]])],
      \<lparr>clock = 2, sent = [get_request [(''x-api-key'', ''k-123''),
                                        (''Content-Type'', ''application/json''),
                                        (''parallel-beta'', ''findall-2025-09-15'')]
                                       ''https://api.parallel.ai/v1beta/findall/runs/fa_1/result'']\<rparr>) \<and>
   fst (get_findall_results keyed_handler
          (scripted [] (json_reply 2 200 (JObj [(''candidates'', JObj [])]))) ''fa_1'' start_world) =
     [(''success'', JBool True),
      (''findall_id'', JStr ''fa_1''),
      (''status'', JNull),
      (''is_active'', JNull),
      (''total_candidates'', JInt 0),
      (''matched_count'', JInt 0),
      (''candidates'', JList [])] \<and>
   (\<exists>items.
      py_iter (JObj []) = Inr items \<and>
      map_of (fst (get_findall_results keyed_handler
                     (scripted [] (json_reply 2 200 (JObj [(''candidates'', JObj [])])))
                     ''fa_1'' start_world)) ''candidates'' =
        Some (JList (filter is_matched items)) \<and>
      length (filter is_matched items) \<le> length items)"
proof -
  let ?cs = "[JObj [(''name'', JStr ''A''), (''match_status'', JStr ''matched'')],
              JObj [(''name'', JStr ''B''), (''match_status'', JStr ''unmatched'')],
              JObj [(''name'', JStr ''C''), (''match_status'', JStr ''matched'')]]"
  let ?st = "[(''status'', JStr ''completed''), (''is_active'', JBool False)]"
  let ?run = "[(''status'', JObj ?st)]"
  let ?result = "[(''run'', JObj ?run), (''candidates'', JList ?cs)]"
  let ?response = "\<lparr>status_code = 200, body_text = render result_body,
                     json_body = Inr result_body\<rparr>"
  let ?w' = "\<lparr>clock = 2, sent = [get_request [(''x-api-key'', ''k-123''),
                                        (''Content-Type'', ''application/json''),
                                        (''parallel-beta'', ''findall-2025-09-15'')]
                                       ''https://api.parallel.ai/v1beta/findall/runs/fa_1/result'']\<rparr>"
  have 1: "requests_get keyed_handler (scripted [] (json_reply 2 200 result_body))
             (BASE_URL @ ''/v1beta/findall/runs/'' @ ''fa_1'' @ ''/result'') start_world
           = (Inr ?response, ?w')"
    by (simp add: requests_get_def get_headers_def get_api_key_def keyed_handler_def
          perform_def scripted_def json_reply_def http_reply_def start_world_def
          get_request_def BASE_URL_def BETA_HEADER_def)
  have 2: "status_code ?response = 200" by simp
  have 3: "json_body ?response = Inr (JObj ?result) \<and>
           dict_get ?result ''candidates'' (JList []) = JList ?cs \<and>
           (\<forall>c\<in>set ?cs. \<exists>kvs. c = JObj kvs) \<and>
           dict_get ?result ''run'' (JObj []) = JObj ?run \<and>
           dict_get ?run ''status'' (JObj []) = JObj ?st"
    by (simp add: result_body_def dict_get_def)
  from get_findall_results_filters_matched[OF 1 2, of ?result ?cs ?run ?st] 3
  have "get_findall_results keyed_handler (scripted [] (json_reply 2 200 result_body)) ''fa_1''
          start_world =
              ([(''success'', JBool True),
                (''findall_id'', JStr ''fa_1''),
                (''status'', dict_get ?st ''status'' JNull),
                (''is_active'', dict_get ?st ''is_active'' JNull),
                (''total_candidates'', JInt (int (length ?cs))),
                (''matched_count'', JInt (int (length (filter is_matched ?cs)))),
                (''candidates'', JList (filter is_matched ?cs))], ?w')"
    by blast
  then have first: "get_findall_results keyed_handler (scripted [] (json_reply 2 200 result_body))
      ''fa_1'' start_world =
     ([(''success'', JBool True),
       (''findall_id'', JStr ''fa_1''),
       (''status'', JStr ''completed''),
       (''is_active'', JBool False),
       (''total_candidates'', JInt 3),
       (''matched_count'', JInt 2),
       (''candidates'',
          JList [JObj [(''name'', JStr ''A''), (''match_status'', JStr ''matched'')],
                 JObj [(''name'', JStr ''C''), (''match_status'', JStr ''matched'')]])], ?w')"
    by (simp add: is_matched_def dict_get_def)
  let ?S = "scripted [] (json_reply 2 200 (JObj [(''candidates'', JObj [])]))"
  let ?R = "\<lparr>status_code = 200, body_text = render (JObj [(''candidates'', JObj [])]),
             json_body = Inr (JObj [(''candidates'', JObj [])])\<rparr>"
  have 4: "requests_get keyed_handler ?S
             (BASE_URL @ ''/v1beta/findall/runs/'' @ ''fa_1'' @ ''/result'') start_world
           = (Inr ?R, ?w')"
    by (simp add: requests_get_def get_headers_def get_api_key_def keyed_handler_def
          perform_def scripted_def json_reply_def http_reply_def start_world_def
          get_request_def BASE_URL_def BETA_HEADER_def)
  have 5: "status_code ?R = 200" by simp
  have second: "fst (get_findall_results keyed_handler ?S ''fa_1'' start_world) =
     [(''success'', JBool True),
      (''findall_id'', JStr ''fa_1''),
      (''status'', JNull),
      (''is_active'', JNull),
      (''total_candidates'', JInt 0),
      (''matched_count'', JInt 0),
      (''candidates'', JList [])]"
    by (simp add: eval_defs)
  then have 6: "map_of (fst (get_findall_results keyed_handler ?S ''fa_1'' start_world)) ''success'' =
                  Some (JBool True)"
    by simp
  from get_findall_results_filters_matched[OF 4 5] 6
  obtain res cands items where
    "json_body ?R = Inr res" "py_get res ''candidates'' (JList []) = Inr cands"
    "py_iter cands = Inr items"
    "map_of (fst (get_findall_results keyed_handler ?S ''fa_1'' start_world)) ''candidates'' =
       Some (JList (filter is_matched items))"
    "length (filter is_matched items) \<le> length items"
    by blast
  then have third: "\<exists>items.
      py_iter (JObj []) = Inr items \<and>
      map_of (fst (get_findall_results keyed_handler ?S ''fa_1'' start_world)) ''candidates'' =
        Some (JList (filter is_matched items)) \<and>
      length (filter is_matched items) \<le> length items"
    by (auto simp: dict_get_def)
  from first second third show ?thesis by blast
qed

theorem get_findall_results_counterexample:
  "fst (get_findall_results keyed_handler
          (scripted [] (json_reply 0 200 (JList []))) ''fa_1'' start_world) =
     [(''success'', JBool False),
      (''error'', JStr (CHR 0x27 # ''list' object has no attribute 'get'' @ [CHR 0x27])),
      (''findall_id'', JStr ''fa_1'')]
   \<and> fst (get_findall_results keyed_handler
          (scripted [] (json_reply 0 200 (JObj [(''candidates'', JNull)]))) ''fa_1'' start_world) =
     [(''success'', JBool False),
      (''error'', JStr (CHR 0x27 # ''NoneType' object is not iterable'')),
      (''findall_id'', JStr ''fa_1'')]
   \<and> fst (get_findall_results keyed_handler
          (scripted [] (json_reply 0 200 (JObj [(''candidates'', JList [JInt 7])])))
          ''fa_1'' start_world) =
     [(''success'', JBool False),
      (''error'', JStr (CHR 0x27 # ''int' object has no attribute 'get'' @ [CHR 0x27])),
      (''findall_id'', JStr ''fa_1'')]
   \<and> fst (get_findall_results keyed_handler
          (scripted [] (json_reply 0 200 (JObj [(''run'', JNull)]))) ''fa_1'' start_world) =
     [(''success'', JBool False),
      (''error'', JStr (CHR 0x27 # ''NoneType' object has no attribute 'get'' @ [CHR 0x27])),
      (''findall_id'', JStr ''fa_1'')]"
  by (simp add: eval_defs)

section \<open>The polling loop\<close>

lemma wait_loop_rounds:
  assumes "k = 0 \<or> 0 \<le> p"
    and "\<forall>j<k. goes_round h svc fid m start (loop_world h svc fid p w j)"
  shows "wait_loop h svc fid p m start w =
         wait_loop h svc fid p m start (loop_world h svc fid p w k)"
  using assms
proof (induction k)
  case 0
  show ?case by simp
next
  case (Suc k)
  then have p: "0 \<le> p" by simp
  have "wait_loop h svc fid p m start w =
        wait_loop h svc fid p m start (loop_world h svc fid p w k)"
    using Suc by simp
  also have "\<dots> = wait_loop h svc fid p m start (loop_world h svc fid p w (Suc k))"
    using wait_loop_round[of h svc fid m start "loop_world h svc fid p w k" p] Suc.prems(2) p
    by simp
  finally show ?case .
qed

lemma wait_loop_poll_fails:
  assumes "clock w - start < of_int m"
    and "\<not> truthy (dict_get (fst (get_findall_status h svc fid w)) ''success'' JNull)"
  shows "wait_loop h svc fid p m start w =
         Some (Inr (fst (get_findall_status h svc fid w)), snd (get_findall_status h svc fid w))"
proof -
  obtain st w1 where "get_findall_status h svc fid w = (st, w1)"
    by (cases "get_findall_status h svc fid w")
  with assms show ?thesis
    by (subst wait_loop.simps) simp
qed


lemma busy_wait_value:
  "wait_for_completion keyed_handler busy_service ''fa_1'' 5 10 start_world =
     Some (Inr (timeout_envelope ''fa_1'' 10),
           \<lparr>clock = 14,
            sent = [get_request [(''x-api-key'', ''k-123''),
                                 (''Content-Type'', ''application/json''),
                                 (''parallel-beta'', ''findall-2025-09-15'')]
                      ''https://api.parallel.ai/v1beta/findall/runs/fa_1'',
                    get_request [(''x-api-key'', ''k-123''),
                                 (''Content-Type'', ''application/json''),
                                 (''parallel-beta'', ''findall-2025-09-15'')]
                      ''https://api.parallel.ai/v1beta/findall/runs/fa_1'']\<rparr>)"
  apply (simp add: wait_for_completion_def start_world_def)
  apply (subst wait_loop.simps)
  apply (simp add: eval_defs)
  apply (subst wait_loop.simps)
  apply (simp add: eval_defs)
  apply (subst wait_loop.simps)
  apply (simp add: eval_defs)
  done








text \<open>
  C4. When the rounds before round \<open>k\<close> all went round, and at round \<open>k\<close> the time is
  within \<open>max_wait\<close> and the status poll returns an envelope whose \<open>success\<close> is not
  true, \<open>wait_for_completion\<close> returns that envelope, in the world the poll left: the
  clock stands where the poll ended (no sleep), and the log of requests ends with the
  poll (no retry, no other request).
\<close>

theorem wait_for_completion_fails_fast:
  assumes "k = 0 \<or> 0 \<le> poll_interval"
    and "\<forall>j<k. goes_round h svc fid max_wait (clock w)
                  (loop_world h svc fid poll_interval w j)"
    and "clock (loop_world h svc fid poll_interval w k) - clock w < of_int max_wait"
    and "\<not> truthy (dict_get (fst (get_findall_status h svc fid
                 (loop_world h svc fid poll_interval w k))) ''success'' JNull)"
  shows "wait_for_completion h svc fid poll_interval max_wait w =
           Some (Inr (fst (get_findall_status h svc fid (loop_world h svc fid poll_interval w k))),
                 snd (get_findall_status h svc fid (loop_world h svc fid poll_interval w k)))"
  unfolding wait_for_completion_def
  using wait_loop_rounds[OF assms(1,2)] wait_loop_poll_fails[OF assms(3,4)]
  by simp


theorem wait_for_completion_fails_fast_witness:
  "(Suc 0 = 0 \<or> (0::int) \<le> 5) \<and>
   goes_round keyed_handler flaky_service ''fa_1'' 300 (clock start_world)
     (loop_world keyed_handler flaky_service ''fa_1'' 5 start_world 0) \<and>
   clock (loop_world keyed_handler flaky_service ''fa_1'' 5 start_world (Suc 0)) - clock start_world
     < of_int 300 \<and>
   \<not> truthy (dict_get (fst (get_findall_status keyed_handler flaky_service ''fa_1''
                 (loop_world keyed_handler flaky_service ''fa_1'' 5 start_world (Suc 0))))
               ''success'' JNull) \<and>
   wait_for_completion keyed_handler flaky_service ''fa_1'' 5 300 start_world =
     Some (Inr [(''success'', JBool False),
                (''error'', JStr ''Connection refused''),
                (''findall_id'', JStr ''fa_1'')],
           \<lparr>clock = 9,
            sent = [get_request [(''x-api-key'', ''k-123''),
                                 (''Content-Type'', ''application/json''),
                                 (''parallel-beta'', ''findall-2025-09-15'')]
                      ''https://api.parallel.ai/v1beta/findall/runs/fa_1'',
                    get_request [(''x-api-key'', ''k-123''),
                                 (''Content-Type'', ''application/json''),
                                 (''parallel-beta'', ''findall-2025-09-15'')]
                      ''https://api.parallel.ai/v1beta/findall/runs/fa_1'']\<rparr>)"
proof -
  have 1: "Suc 0 = 0 \<or> (0::int) \<le> 5" by simp
  have 2: "\<forall>j<Suc 0. goes_round keyed_handler flaky_service ''fa_1'' 300 (clock start_world)
                  (loop_world keyed_handler flaky_service ''fa_1'' 5 start_world j)"
    by (simp add: goes_round_def eval_defs)
  have 3: "clock (loop_world keyed_handler flaky_service ''fa_1'' 5 start_world (Suc 0))
             - clock start_world < of_int 300"
    by (simp add: eval_defs)
  have 4: "\<not> truthy (dict_get (fst (get_findall_status keyed_handler flaky_service ''fa_1''
                 (loop_world keyed_handler flaky_service ''fa_1'' 5 start_world (Suc 0))))
               ''success'' JNull)"
    by (simp add: eval_defs)
  from wait_for_completion_fails_fast[OF 1 2 3 4]
  have "wait_for_completion keyed_handler flaky_service ''fa_1'' 5 300 start_world =
     Some (Inr [(''success'', JBool False),
                (''error'', JStr ''Connection refused''),
                (''findall_id'', JStr ''fa_1'')],
           \<lparr>clock = 9,
            sent = [get_request [(''x-api-key'', ''k-123''),
                                 (''Content-Type'', ''application/json''),
                                 (''parallel-beta'', ''findall-2025-09-15'')]
                      ''https://api.parallel.ai/v1beta/findall/runs/fa_1'',
                    get_request [(''x-api-key'', ''k-123''),
                                 (''Content-Type'', ''application/json''),
                                 (''parallel-beta'', ''findall-2025-09-15'')]
                      ''https://api.parallel.ai/v1beta/findall/runs/fa_1'']\<rparr>)"
    by (simp add: eval_defs)
  moreover have "goes_round keyed_handler flaky_service ''fa_1'' 300 (clock start_world)
      (loop_world keyed_handler flaky_service ''fa_1'' 5 start_world 0)"
    using 2 by simp
  ultimately show ?thesis using 1 3 4 by blast
qed

text \<open>
  C5. Whatever \<open>wait_for_completion\<close> returns, the requests it has added to the log are
  polls of the status of the run followed by at most one read of its result
  (\<open>reads_only\<close>): each is a \<open>GET\<close>. Creating, extending, enriching and cancelling are
  \<open>POST\<close> requests, so none of them is sent, on a timeout as on every other return.
\<close>

theorem wait_for_completion_only_reads:
  assumes "wait_for_completion h svc fid poll_interval max_wait w = Some (r, w')"
  shows "reads_only h fid (sent w) (sent w') \<and>
         (\<forall>rq\<in>set (drop (length (sent w)) (sent w')). req_method rq = GET)"
proof -
  have ro: "reads_only h fid (sent w) (sent w')"
    using wait_loop_reads_only[of h svc fid poll_interval max_wait "clock w" w "(r, w')"] assms
    by (simp add: wait_for_completion_def)
  have "\<forall>rq\<in>set (drop (length (sent w)) (sent w')). req_method rq = GET"
  proof (cases "get_headers h")
    case (Inl e)
    with ro show ?thesis by (simp add: reads_only_def)
  next
    case (Inr hs)
    with ro obtain n fin where
      "sent w' = sent w @ replicate n (get_request hs (status_url fid)) @ fin"
      "fin = [] \<or> fin = [get_request hs (result_url fid)]"
      by (auto simp: reads_only_def)
    then show ?thesis by (auto simp: get_request_def)
  qed
  with ro show ?thesis by simp
qed

theorem wait_for_completion_only_reads_witness:
  "wait_for_completion keyed_handler busy_service ''fa_1'' 5 10 start_world =
     Some (Inr (timeout_envelope ''fa_1'' 10),
           \<lparr>clock = 14,
            sent = [get_request [(''x-api-key'', ''k-123''),
                                 (''Content-Type'', ''application/json''),
                                 (''parallel-beta'', ''findall-2025-09-15'')]
                      ''https://api.parallel.ai/v1beta/findall/runs/fa_1'',
                    get_request [(''x-api-key'', ''k-123''),
                                 (''Content-Type'', ''application/json''),
                                 (''parallel-beta'', ''findall-2025-09-15'')]
                      ''https://api.parallel.ai/v1beta/findall/runs/fa_1'']\<rparr>) \<and>
   reads_only keyed_handler ''fa_1'' []
     [get_request [(''x-api-key'', ''k-123''),
                   (''Content-Type'', ''application/json''),
                   (''parallel-beta'', ''findall-2025-09-15'')]
        ''https://api.parallel.ai/v1beta/findall/runs/fa_1'',
      get_request [(''x-api-key'', ''k-123''),
                   (''Content-Type'', ''application/json''),
                   (''parallel-beta'', ''findall-2025-09-15'')]
        ''https://api.parallel.ai/v1beta/findall/runs/fa_1'']"
  using wait_for_completion_only_reads[OF busy_wait_value] busy_wait_value
  by (simp add: start_world_def)

section \<open>The envelope of an outcome\<close>

lemma run_eq:
  "run h svc op w =
     (envelope_of_outcome op (fst (transport_call h svc op w)), snd (transport_call h svc op w))"
proof (cases op)
  case (CreateRun x1 x2 x3 x4 x5 x6 x7)
  then show ?thesis
    by (simp add: create_findall_run_def try_except_def envelope_of_outcome_def failure_envelope_def
             split: prod.splits sum.splits)
next
  case (GetStatus x)
  then show ?thesis
    by (simp add: get_findall_status_def try_except_def envelope_of_outcome_def failure_envelope_def
             status_url_def split: prod.splits sum.splits)
next
  case (GetResults x)
  then show ?thesis
    by (simp add: get_findall_results_def try_except_def envelope_of_outcome_def failure_envelope_def
             result_url_def split: prod.splits sum.splits)
next
  case (Extend x1 x2)
  then show ?thesis
    by (simp add: extend_findall_def try_except_def envelope_of_outcome_def failure_envelope_def
             split: prod.splits sum.splits)
next
  case (Enrich x1 x2 x3)
  then show ?thesis
    by (simp add: enrich_findall_def try_except_def envelope_of_outcome_def failure_envelope_def
             split: prod.splits sum.splits)
next
  case (Cancel x)
  then show ?thesis
    by (simp add: cancel_findall_def try_except_def envelope_of_outcome_def failure_envelope_def
             split: prod.splits sum.splits)
qed

lemma and_then_InrD:
  "and_then r f = Inr y \<Longrightarrow> \<exists>v. r = Inr v \<and> f v = Inr y"
  by (cases r) simp_all


lemma context_field_key:
  "fst (context_field op) = ''objective'' \<or> fst (context_field op) = ''findall_id''"
  by (cases op) simp_all

lemma failure_envelope_success [simp]:
  "map_of (failure_envelope msg ctx) ''success'' = Some (JBool False)"
  by (simp add: failure_envelope_def)









section \<open>The envelopes\<close>



lemmas eval_more =
  eval_defs create_findall_run_def extend_findall_def enrich_findall_def cancel_findall_def
  create_on_200_def extend_on_200_def enrich_on_200_def cancel_on_200_def
  create_payload_def generator_or_default_def match_limit_or_default_def
  DEFAULT_GENERATOR_def DEFAULT_MATCH_LIMIT_def post_request_def timeout_envelope_def







section \<open>Kinds of failure\<close>

lemma requests_post_cases:
  "(\<exists>e. get_headers h = Inl e \<and> requests_post h svc u payload w = (Inl e, w)) \<or>
   (\<exists>hs. get_headers h = Inr hs \<and>
         requests_post h svc u payload w =
           (outcome (svc (sent w) (clock w) (post_request hs u payload)),
            \<lparr>clock = clock w + latency (svc (sent w) (clock w) (post_request hs u payload)),
             sent = sent w @ [post_request hs u payload]\<rparr>))"
  by (cases "get_headers h") (simp_all add: requests_post_def perform_def post_request_def Let_def)

lemma transport_call_secret_fails:
  "get_api_key h = Inl e \<Longrightarrow> transport_call h svc op w = (Inl e, w)"
  by (cases op) (simp_all add: requests_get_def requests_post_def get_headers_def)




text \<open>
  C9. Each of the six methods returns an envelope whatever is raised. An exception of the
  secret lookup gives the failure envelope with its text, and nothing is sent; without a
  module this is the \<open>RuntimeError\<close> of \<open>_get_api_key\<close>. An exception of the HTTP
  call, and one raised while the body of a 200 response is read, give the failure
  envelope with their text too.
\<close>

theorem operations_catch_every_exception:
  "(get_api_key h = Inl e \<longrightarrow>
      run h svc op w = (failure_envelope (str_exn e) (context_field op), w)) \<and>
   (snowflake h = None \<longrightarrow>
      run h svc op w =
        (failure_envelope ''Snowflake module not initialized'' (context_field op), w)) \<and>
   (fst (transport_call h svc op w) = Inl e \<longrightarrow>
      fst (run h svc op w) = failure_envelope (str_exn e) (context_field op)) \<and>
   (fst (transport_call h svc op w) = Inr response \<and> status_code response = 200 \<and>
    on_200 op response = Inl e \<longrightarrow>
      fst (run h svc op w) = failure_envelope (str_exn e) (context_field op))"
proof -
  have 1: "get_api_key h = Inl e \<longrightarrow>
      run h svc op w = (failure_envelope (str_exn e) (context_field op), w)" for e
    by (simp add: run_eq transport_call_secret_fails envelope_of_outcome_def)
  have "snowflake h = None \<longrightarrow>
          get_api_key h = Inl (RuntimeError ''Snowflake module not initialized'')"
    by (simp add: get_api_key_def)
  with 1[of "RuntimeError ''Snowflake module not initialized''"]
  have 2: "snowflake h = None \<longrightarrow>
      run h svc op w =
        (failure_envelope ''Snowflake module not initialized'' (context_field op), w)"
    by simp
  have 3: "fst (transport_call h svc op w) = Inl e \<longrightarrow>
      fst (run h svc op w) = failure_envelope (str_exn e) (context_field op)"
    by (simp add: run_eq envelope_of_outcome_def)
  have 4: "fst (transport_call h svc op w) = Inr response \<and> status_code response = 200 \<and>
    on_200 op response = Inl e \<longrightarrow>
      fst (run h svc op w) = failure_envelope (str_exn e) (context_field op)"
    by (simp add: run_eq envelope_of_outcome_def)
  from 1 2 3 4 show ?thesis by blast
qed

theorem operations_catch_every_exception_witness:
  "run bare_handler demo_service (Extend ''fa_1'' 5) start_world =
     ([(''success'', JBool False), (''error'', JStr ''Snowflake module not initialized''),
       (''findall_id'', JStr ''fa_1'')], start_world) \<and>
   fst (run keyed_handler refusing_service (Enrich ''fa_1'' (JObj []) ''core'') start_world) =
     [(''success'', JBool False), (''error'', JStr ''Connection refused''),
      (''findall_id'', JStr ''fa_1'')]"
proof -
  have "snowflake bare_handler = None"
    by (simp add: bare_handler_def)
  with operations_catch_every_exception[of bare_handler _ demo_service "Extend ''fa_1'' 5" start_world]
  have 1: "run bare_handler demo_service (Extend ''fa_1'' 5) start_world =
     ([(''success'', JBool False), (''error'', JStr ''Snowflake module not initialized''),
       (''findall_id'', JStr ''fa_1'')], start_world)"
    by (simp add: failure_envelope_def)
  have "fst (transport_call keyed_handler refusing_service (Enrich ''fa_1'' (JObj []) ''core'')
          start_world) = Inl (RequestException ''Connection refused'')"
    by (simp add: eval_more)
  with operations_catch_every_exception[of keyed_handler "RequestException ''Connection refused''"
         refusing_service "Enrich ''fa_1'' (JObj []) ''core''" start_world]
  have 2: "fst (run keyed_handler refusing_service (Enrich ''fa_1'' (JObj []) ''core'') start_world) =
     [(''success'', JBool False), (''error'', JStr ''Connection refused''),
      (''findall_id'', JStr ''fa_1'')]"
    by (simp add: failure_envelope_def)
  from 1 2 show ?thesis by blast
qed


section \<open>Arguments that are passed on\<close>

lemma create_sent:
  "get_headers h = Inr hs \<Longrightarrow>
   sent (snd (create_findall_run h svc obj ety mc g ml ex md w)) =
     sent w @ [post_request hs (BASE_URL @ ''/v1beta/findall/runs'')
                 (Some (create_payload obj ety mc g ml ex md))]"
  using requests_post_cases[of h svc "BASE_URL @ ''/v1beta/findall/runs''"
          "Some (create_payload obj ety mc g ml ex md)" w]
        run_eq[of h svc "CreateRun obj ety mc g ml ex md" w]
  by auto

text \<open>
  C10. \<open>create_findall_run\<close> posts the payload of \<open>create_payload\<close>. In it
  \<open>match_limit\<close> is 10 when the argument is \<open>None\<close> or 0, and the argument itself
  when it is any other integer, in or out of the range from 5 to 1000; \<open>generator\<close> is
  \<open>core\<close> when the argument is \<open>None\<close> or the empty string, and the argument itself
  otherwise.
\<close>

theorem create_substitutes_defaults_for_falsy:
  "(get_headers h = Inr hs \<longrightarrow>
      sent (snd (create_findall_run h svc obj ety mc g ml ex md w)) =
        sent w @ [post_request hs (BASE_URL @ ''/v1beta/findall/runs'')
                    (Some (create_payload obj ety mc g ml ex md))]) \<and>
   py_get (create_payload obj ety mc g (Some 0) ex md) ''match_limit'' JNull = Inr (JInt 10) \<and>
   py_get (create_payload obj ety mc g None ex md) ''match_limit'' JNull = Inr (JInt 10) \<and>
   py_get (create_payload obj ety mc (Some []) ml ex md) ''generator'' JNull = Inr (JStr ''core'') \<and>
   py_get (create_payload obj ety mc None ml ex md) ''generator'' JNull = Inr (JStr ''core'') \<and>
   (m \<noteq> 0 \<longrightarrow>
      py_get (create_payload obj ety mc g (Some m) ex md) ''match_limit'' JNull = Inr (JInt m)) \<and>
   (s \<noteq> [] \<longrightarrow>
      py_get (create_payload obj ety mc (Some s) ml ex md) ''generator'' JNull = Inr (JStr s))"
  using create_sent[of h hs svc obj ety mc g ml ex md w]
  by (simp add: create_payload_def generator_or_default_def match_limit_or_default_def
        DEFAULT_GENERATOR_def DEFAULT_MATCH_LIMIT_def dict_get_def)

theorem create_substitutes_defaults_for_falsy_witness:
  "sent (snd (create_findall_run keyed_handler refusing_service ''AI startups'' ''companies''
                (JList [JObj [(''name'', JStr ''funded''),
                              (''description'', JStr ''has raised a seed round'')]])
                (Some []) (Some 0) JNull JNull start_world)) =
     [post_request [(''x-api-key'', ''k-123''),
                    (''Content-Type'', ''application/json''),
                    (''parallel-beta'', ''findall-2025-09-15'')]
        ''https://api.parallel.ai/v1beta/findall/runs''
        (Some (JObj [(''objective'', JStr ''AI startups''),
                     (''entity_type'', JStr ''companies''),
                     (''match_conditions'',
                        JList [JObj [(''name'', JStr ''funded''),
                                     (''description'', JStr ''has raised a seed round'')]]),
                     (''generator'', JStr ''core''),
                     (''match_limit'', JInt 10)]))] \<and>
   py_get (create_payload ''AI startups'' ''companies'' (JList []) None (Some 5000) JNull JNull)
     ''match_limit'' JNull = Inr (JInt 5000) \<and>
   py_get (create_payload ''AI startups'' ''companies'' (JList []) None (Some (- 3)) JNull JNull)
     ''match_limit'' JNull = Inr (JInt (- 3)) \<and>
   py_get (create_payload ''AI startups'' ''companies'' (JList []) (Some ''pro'') None JNull JNull)
     ''generator'' JNull = Inr (JStr ''pro'')"
proof -
  let ?hs = "[(''x-api-key'', ''k-123''), (''Content-Type'', ''application/json''),
              (''parallel-beta'', ''findall-2025-09-15'')]"
  let ?mc = "JList [JObj [(''name'', JStr ''funded''),
                          (''description'', JStr ''has raised a seed round'')]]"
  have hs: "get_headers keyed_handler = Inr ?hs"
    by (simp add: get_headers_def get_api_key_def keyed_handler_def BETA_HEADER_def)
  from create_substitutes_defaults_for_falsy[of keyed_handler ?hs refusing_service
         "''AI startups''" "''companies''" ?mc "Some []" "Some 0" JNull JNull start_world] hs
  have 1: "sent (snd (create_findall_run keyed_handler refusing_service ''AI startups''
                ''companies'' ?mc (Some []) (Some 0) JNull JNull start_world)) =
        sent start_world @ [post_request ?hs (BASE_URL @ ''/v1beta/findall/runs'')
                    (Some (create_payload ''AI startups'' ''companies'' ?mc (Some []) (Some 0)
                             JNull JNull))]"
    by blast
  have 2: "py_get (create_payload ''AI startups'' ''companies'' (JList []) None (Some 5000)
             JNull JNull) ''match_limit'' JNull = Inr (JInt 5000)"
    using create_substitutes_defaults_for_falsy[where m = 5000] by simp
  have 3: "py_get (create_payload ''AI startups'' ''companies'' (JList []) None (Some (- 3))
             JNull JNull) ''match_limit'' JNull = Inr (JInt (- 3))"
    using create_substitutes_defaults_for_falsy[where m = "- 3"] by simp
  have 4: "py_get (create_payload ''AI startups'' ''companies'' (JList []) (Some ''pro'') None
             JNull JNull) ''generator'' JNull = Inr (JStr ''pro'')"
    using create_substitutes_defaults_for_falsy[where s = "''pro''"] by simp
  from 1 have "sent (snd (create_findall_run keyed_handler refusing_service ''AI startups''
                ''companies'' ?mc (Some []) (Some 0) JNull JNull start_world)) =
     [post_request ?hs ''https://api.parallel.ai/v1beta/findall/runs''
        (Some (JObj [(''objective'', JStr ''AI startups''),
                     (''entity_type'', JStr ''companies''),
                     (''match_conditions'', ?mc),
                     (''generator'', JStr ''core''),
                     (''match_limit'', JInt 10)]))]"
    by (simp add: start_world_def BASE_URL_def create_payload_def generator_or_default_def
          match_limit_or_default_def DEFAULT_GENERATOR_def DEFAULT_MATCH_LIMIT_def)
  with 2 3 4 show ?thesis by blast
qed

section \<open>The entry point of enrich\<close>

text \<open>
  C8. The entry point \<open>enrich_findall\<close> decodes a schema that comes as a string with
  \<open>json.loads\<close> before it calls the handler, and outside every \<open>try\<close>. For every
  text that \<open>json.loads\<close> refuses, the exception of the decoder leaves the entry
  point: no envelope is returned, and nothing is sent to the service. A schema that is
  not a string, or that the decoder accepts, reaches the method \<open>enrich_findall\<close> of
  the handler, whose envelope is returned as text: the decoding is the one place where
  the entry point raises.
\<close>

theorem enrich_findall_udf_raises_on_undecodable:
  "(loads s = Inl e \<longrightarrow>
      enrich_findall_udf loads dumps fid (JStr s) proc m svc w = (Inl e, w)) \<and>
   ((case output_schema_json of JStr s \<Rightarrow> loads s | v \<Rightarrow> Inr v) = Inr schema \<longrightarrow>
      enrich_findall_udf loads dumps fid output_schema_json proc m svc w =
        (Inr (dumps (fst (enrich_findall \<lparr>snowflake = m\<rparr> svc fid schema proc w))),
         snd (enrich_findall \<lparr>snowflake = m\<rparr> svc fid schema proc w)))"
  by (simp add: enrich_findall_udf_def Let_def split: prod.splits)

theorem enrich_findall_udf_raises_on_undecodable_witness:
  "demo_loads ''not json'' = Inl (JSONDecodeError ''Expecting value: line 1 column 1 (char 0)'') \<and>
   enrich_findall_udf demo_loads demo_dumps ''fa_1'' (JStr ''not json'') ''core''
     (snowflake keyed_handler) rejecting_service start_world =
     (Inl (JSONDecodeError ''Expecting value: line 1 column 1 (char 0)''), start_world) \<and>
   fst (enrich_findall_udf demo_loads demo_dumps ''fa_1'' (JList [JInt 1]) ''core''
          (snowflake keyed_handler) rejecting_service start_world) =
     Inr (demo_dumps [(''success'', JBool False),
                      (''error'', JStr ''HTTP 422: output_schema must be an object''),
                      (''findall_id'', JStr ''fa_1'')])"
proof -
  let ?e = "JSONDecodeError ''Expecting value: line 1 column 1 (char 0)''"
  have d: "demo_loads ''not json'' = Inl ?e"
    by (simp add: demo_loads_def)
  from enrich_findall_udf_raises_on_undecodable[where loads = demo_loads and s = "''not json''"
         and e = ?e and dumps = demo_dumps and fid = "''fa_1''" and proc = "''core''"
         and m = "snowflake keyed_handler" and svc = rejecting_service and w = start_world] d
  have 1: "enrich_findall_udf demo_loads demo_dumps ''fa_1'' (JStr ''not json'') ''core''
     (snowflake keyed_handler) rejecting_service start_world = (Inl ?e, start_world)"
    by blast
  have k: "\<lparr>snowflake = snowflake keyed_handler\<rparr> = keyed_handler"
    by simp
  have c: "(case JList [JInt 1] of JStr s \<Rightarrow> demo_loads s | v \<Rightarrow> Inr v) = Inr (JList [JInt 1])"
    by simp
  have v: "fst (enrich_findall keyed_handler rejecting_service ''fa_1'' (JList [JInt 1]) ''core''
                  start_world) =
     [(''success'', JBool False),
      (''error'', JStr ''HTTP 422: output_schema must be an object''),
      (''findall_id'', JStr ''fa_1'')]"
    by (simp add: eval_more)
  from enrich_findall_udf_raises_on_undecodable[where loads = demo_loads
         and output_schema_json = "JList [JInt 1]" and schema = "JList [JInt 1]"
         and dumps = demo_dumps and fid = "''fa_1''" and proc = "''core''"
         and m = "snowflake keyed_handler" and svc = rejecting_service and w = start_world] c
  have "fst (enrich_findall_udf demo_loads demo_dumps ''fa_1'' (JList [JInt 1]) ''core''
          (snowflake keyed_handler) rejecting_service start_world) =
        Inr (demo_dumps (fst (enrich_findall \<lparr>snowflake = snowflake keyed_handler\<rparr>
               rejecting_service ''fa_1'' (JList [JInt 1]) ''core'' start_world)))"
    by simp
  then have 2: "fst (enrich_findall_udf demo_loads demo_dumps ''fa_1'' (JList [JInt 1]) ''core''
          (snowflake keyed_handler) rejecting_service start_world) =
     Inr (demo_dumps [(''success'', JBool False),
                      (''error'', JStr ''HTTP 422: output_schema must be an object''),
                      (''findall_id'', JStr ''fa_1'')])"
    unfolding k v .
  from d 1 2 show ?thesis by blast
qed

end
